theory Spec2Isabelle
  imports Complex_Main
begin

section \<open>Text primitives\<close>

text \<open>
  Python text is modelled by HOL strings, that is, by lists of code points below 256.
  On that range the character classes below are the ones of Python 3:
  \<^verbatim>\<open>str.isspace\<close> (also the class \<^verbatim>\<open>\s\<close> of module \<^verbatim>\<open>re\<close>), the decimal digits
  \<^verbatim>\<open>\d\<close>, the word characters \<^verbatim>\<open>\w\<close> (alphanumeric or underscore) and
  \<^verbatim>\<open>str.lower\<close>.
\<close>

definition is_space :: "char \<Rightarrow> bool" where
  "is_space c = (let n = (of_char c :: nat) in
     (9 \<le> n \<and> n \<le> 13) \<or> (28 \<le> n \<and> n \<le> 32) \<or> n = 133 \<or> n = 160)"

definition is_digit :: "char \<Rightarrow> bool" where
  "is_digit c = (let n = (of_char c :: nat) in 48 \<le> n \<and> n \<le> 57)"

definition is_word :: "char \<Rightarrow> bool" where
  "is_word c = (let n = (of_char c :: nat) in
     (48 \<le> n \<and> n \<le> 57) \<or> (65 \<le> n \<and> n \<le> 90) \<or> n = 95 \<or> (97 \<le> n \<and> n \<le> 122)
     \<or> n = 170 \<or> n = 178 \<or> n = 179 \<or> n = 181 \<or> n = 185 \<or> n = 186
     \<or> (188 \<le> n \<and> n \<le> 190) \<or> (192 \<le> n \<and> n \<le> 214) \<or> (216 \<le> n \<and> n \<le> 246)
     \<or> 248 \<le> n)"

definition lower_char :: "char \<Rightarrow> char" where
  "lower_char c = (let n = (of_char c :: nat) in
     if (65 \<le> n \<and> n \<le> 90) \<or> (192 \<le> n \<and> n \<le> 222 \<and> n \<noteq> 215)
     then char_of (n + 32) else c)"

text \<open>\<^verbatim>\<open>s.lower()\<close>, \<^verbatim>\<open>s.strip()\<close> and \<^verbatim>\<open>sep.join(xs)\<close>.\<close>

definition lower :: "string \<Rightarrow> string" where
  "lower s = map lower_char s"

definition strip :: "string \<Rightarrow> string" where
  "strip s = rev (dropWhile is_space (rev (dropWhile is_space s)))"

fun join :: "string \<Rightarrow> string list \<Rightarrow> string" where
  "join sep [] = []"
| "join sep [x] = x"
| "join sep (x # y # ys) = x @ sep @ join sep (y # ys)"

text \<open>
  The truth value Python gives to an optional string (\<^verbatim>\<open>if v and v.strip()\<close>): the
  value is present, not empty, and not made of white space only.
\<close>

fun nonblank :: "string option \<Rightarrow> bool" where
  "nonblank None = False"
| "nonblank (Some v) = (v \<noteq> [] \<and> strip v \<noteq> [])"

section \<open>Data model (models.py)\<close>

datatype crop_stage =
  Unknown | Pre_sowing | Sowing | Germination | Vegetative | Flowering
  | Fruiting | Maturity | Harvest | Post_harvest

datatype urgency_level = Low | Medium | High

record farmer_context =
  crop :: "string option"
  stage :: crop_stage
  location_text :: "string option"
  lat :: "real option"
  lon :: "real option"
  sowing_date :: "string option"
  irrigation :: "string option"
  soil_type :: "string option"
  farmer_notes :: "string option"

record observation =
  symptoms :: "string list"
  pests_seen :: "string list"
  images_hint :: "string option"
  urgency :: urgency_level

text \<open>The partial update produced by the fact extractor (\<^verbatim>\<open>IntakeExtraction\<close>).\<close>

record intake_extraction =
  upd_crop :: "string option"
  upd_stage :: "string option"
  upd_location_text :: "string option"
  upd_sowing_date :: "string option"
  upd_irrigation :: "string option"
  upd_soil_type :: "string option"
  upd_notes :: "string option"
  upd_symptoms :: "string list"
  upd_pests_seen :: "string list"
  upd_urgency :: "string option"

datatype confidence_level = Conf_low | Conf_medium | Conf_high

text \<open>
  The entries of the daily and hourly forecast are raw JSON objects that the core never
  inspects; they are kept as text. The constant \<^verbatim>\<open>source\<close> fields are left out.
\<close>

record weather_snapshot =
  fetched_at_utc :: string
  summary :: string
  alerts :: "string list"
  daily :: "string list"
  hourly :: "string list"

record web_context =
  web_fetched_at_utc :: string
  query :: string
  snippets :: "string list"
  urls :: "string list"

record advisory =
  headline :: string
  adv_stage :: crop_stage
  actions_now :: "string list"
  watch_out_for :: "string list"
  next_questions :: "string list"
  rationale_brief :: string
  confidence :: confidence_level
  safety_notes :: "string list"
  needs_human_review :: bool

record guardrail_result =
  ok :: bool
  reasons :: "string list"
  guard_needs_human_review :: bool

record message =
  role :: string
  content :: string

record graph_state =
  chat_id :: string
  messages :: "message list"
  ctx :: farmer_context
  observation :: observation
  weather :: "weather_snapshot option"
  web :: "web_context option"
  advisory :: "advisory option"
  last_node :: "string option"
  turn_count :: int

datatype error = ValidationError | TypeError | RetryError

text \<open>Membership of a string in the literal type \<^verbatim>\<open>CropStage\<close>, with the stage it names.\<close>

definition parse_stage :: "string \<Rightarrow> crop_stage option" where
  "parse_stage s =
     (if s = ''unknown'' then Some Unknown
      else if s = ''pre_sowing'' then Some Pre_sowing
      else if s = ''sowing'' then Some Sowing
      else if s = ''germination'' then Some Germination
      else if s = ''vegetative'' then Some Vegetative
      else if s = ''flowering'' then Some Flowering
      else if s = ''fruiting'' then Some Fruiting
      else if s = ''maturity'' then Some Maturity
      else if s = ''harvest'' then Some Harvest
      else if s = ''post_harvest'' then Some Post_harvest
      else None)"

definition parse_confidence :: "string \<Rightarrow> confidence_level option" where
  "parse_confidence s =
     (if s = ''low'' then Some Conf_low
      else if s = ''medium'' then Some Conf_medium
      else if s = ''high'' then Some Conf_high
      else None)"

subsection \<open>Construction of an advisory (models.py, \<^verbatim>\<open>Advisory\<close> and \<^verbatim>\<open>safe_parse_advisory\<close>)\<close>

text \<open>
  The JSON object handed to \<^verbatim>\<open>Advisory.model_validate\<close>, with values of the expected JSON
  types. A missing key is \<open>None\<close> for the scalar fields and the empty list for the list
  fields (their default).
\<close>

record advisory_data =
  data_headline :: "string option"
  data_stage :: "string option"
  data_actions_now :: "string list"
  data_watch_out_for :: "string list"
  data_next_questions :: "string list"
  data_rationale_brief :: "string option"
  data_confidence :: "string option"
  data_safety_notes :: "string list"
  data_needs_human_review :: "bool option"

text \<open>\<^verbatim>\<open>[x.strip() for x in v if x and x.strip()]\<close>\<close>

definition strip_entries :: "string list \<Rightarrow> string list" where
  "strip_entries v = map strip (filter (\<lambda>x. x \<noteq> [] \<and> strip x \<noteq> []) v)"

definition limit_actions :: "string list \<Rightarrow> string list" where
  "limit_actions v = take 7 (strip_entries v)"

definition limit_watch :: "string list \<Rightarrow> string list" where
  "limit_watch v = take 5 (strip_entries v)"

definition limit_questions :: "string list \<Rightarrow> string list" where
  "limit_questions v = take 3 (strip_entries v)"

definition safe_parse_advisory :: "advisory_data \<Rightarrow> error + advisory" where
  "safe_parse_advisory d =
     (case data_headline d of
        None \<Rightarrow> Inl ValidationError
      | Some h \<Rightarrow>
          if length h < 3 \<or> 120 < length h then Inl ValidationError
          else (case (case data_stage d of None \<Rightarrow> Some Unknown | Some s \<Rightarrow> parse_stage s) of
            None \<Rightarrow> Inl ValidationError
          | Some st \<Rightarrow>
              let r = (case data_rationale_brief d of None \<Rightarrow> [] | Some t \<Rightarrow> t) in
              if 600 < length r then Inl ValidationError
              else (case (case data_confidence d of None \<Rightarrow> Some Conf_medium
                          | Some c \<Rightarrow> parse_confidence c) of
                None \<Rightarrow> Inl ValidationError
              | Some cf \<Rightarrow>
                  Inr \<lparr> headline = h,
                        adv_stage = st,
                        actions_now = limit_actions (data_actions_now d),
                        watch_out_for = limit_watch (data_watch_out_for d),
                        next_questions = limit_questions (data_next_questions d),
                        rationale_brief = r,
                        confidence = cf,
                        safety_notes = data_safety_notes d,
                        needs_human_review =
                          (case data_needs_human_review d of None \<Rightarrow> False | Some b \<Rightarrow> b) \<rparr>)))"

subsection \<open>Message history (models.py, \<^verbatim>\<open>GraphState\<close>)\<close>

definition add_user :: "string \<Rightarrow> message list \<Rightarrow> message list" where
  "add_user text ms = ms @ [\<lparr> role = ''user'', content = text \<rparr>]"

definition add_assistant :: "string \<Rightarrow> message list \<Rightarrow> message list" where
  "add_assistant text ms = ms @ [\<lparr> role = ''assistant'', content = text \<rparr>]"

text \<open>
  \<^verbatim>\<open>if len(self.messages) > max_messages: self.messages = self.messages[-max_messages:]\<close>.
  The slice \<^verbatim>\<open>[-0:]\<close> is the whole list.
\<close>

definition compact_messages :: "nat \<Rightarrow> message list \<Rightarrow> message list" where
  "compact_messages max_messages ms =
     (if length ms > max_messages
      then (if max_messages = 0 then ms else drop (length ms - max_messages) ms)
      else ms)"

section \<open>Merge engine: observations (graph.py, \<^verbatim>\<open>_merge_observation\<close>)\<close>

text \<open>
  One of the two loops of \<^verbatim>\<open>_merge_observation\<close>: every entry is stripped, and appended
  unless it is empty or already present up to letter case.
\<close>

fun merge_unique :: "string list \<Rightarrow> string list \<Rightarrow> string list" where
  "merge_unique acc [] = acc"
| "merge_unique acc (s # ss) =
     (let s' = strip s in
      if s' \<noteq> [] \<and> lower s' \<notin> set (map lower acc)
      then merge_unique (acc @ [s']) ss
      else merge_unique acc ss)"

text \<open>The dictionary \<^verbatim>\<open>order = {"low": 0, "medium": 1, "high": 2}\<close>.\<close>

fun urgency_order :: "urgency_level \<Rightarrow> nat" where
  "urgency_order Low = 0"
| "urgency_order Medium = 1"
| "urgency_order High = 2"

text \<open>Membership of a string in \<^verbatim>\<open>{"low", "medium", "high"}\<close>, with the level it names.\<close>

definition parse_urgency :: "string \<Rightarrow> urgency_level option" where
  "parse_urgency u =
     (if u = ''low'' then Some Low
      else if u = ''medium'' then Some Medium
      else if u = ''high'' then Some High
      else None)"

definition merge_urgency :: "urgency_level \<Rightarrow> string option \<Rightarrow> urgency_level" where
  "merge_urgency old_u v =
     (case v of
        None \<Rightarrow> old_u
      | Some s \<Rightarrow>
          if s = [] then old_u
          else (case parse_urgency (lower (strip s)) of
                  None \<Rightarrow> old_u
                | Some u \<Rightarrow> if urgency_order u > urgency_order old_u then u else old_u))"

definition merge_observation :: "observation \<Rightarrow> intake_extraction \<Rightarrow> observation" where
  "merge_observation old upd =
     \<lparr> symptoms = merge_unique (symptoms old) (upd_symptoms upd),
       pests_seen = merge_unique (pests_seen old) (upd_pests_seen upd),
       images_hint = None,
       urgency = merge_urgency (urgency old) (upd_urgency upd) \<rparr>"

section \<open>Regular expressions (the fragment of module \<^verbatim>\<open>re\<close> the guardrails use)\<close>

text \<open>
  The patterns of the guardrails are built from literal characters, the classes
  \<^verbatim>\<open>\d\<close> and \<^verbatim>\<open>\s\<close> (repeated with \<^verbatim>\<open>+\<close> and \<^verbatim>\<open>*\<close>), the word boundary
  \<^verbatim>\<open>\b\<close>, grouping, alternation and \<^verbatim>\<open>?\<close>. Every search is made with
  \<^verbatim>\<open>re.IGNORECASE\<close>, so a literal matches a character when both have the same lower case.
\<close>

datatype cclass = CDigit | CSpace

datatype regex =
  Eps
  | Lit char
  | WordB
  | Plus cclass
  | Star cclass
  | Seq regex regex
  | Alt regex regex
  | Opt regex

fun in_class :: "cclass \<Rightarrow> char \<Rightarrow> bool" where
  "in_class CDigit c = is_digit c"
| "in_class CSpace c = is_space c"

text \<open>
  A position in the searched text: the character before it, if any, and the text from it on.
  \<^verbatim>\<open>\b\<close> holds where exactly one of the two neighbours is a word character.
\<close>

type_synonym pos = "char option \<times> string"

fun is_boundary :: "pos \<Rightarrow> bool" where
  "is_boundary (p, s) =
     ((case p of None \<Rightarrow> False | Some c \<Rightarrow> is_word c)
      \<noteq> (case s of [] \<Rightarrow> False | x # xs \<Rightarrow> is_word x))"

text \<open>All positions reached by reading zero or more characters of a class.\<close>

fun star_class :: "cclass \<Rightarrow> char option \<Rightarrow> string \<Rightarrow> pos list" where
  "star_class k p [] = [(p, [])]"
| "star_class k p (x # xs) =
     (p, x # xs) # (if in_class k x then star_class k (Some x) xs else [])"

text \<open>All positions at which a match of the expression that starts here can end.\<close>

fun rmatch :: "regex \<Rightarrow> pos \<Rightarrow> pos list" where
  "rmatch Eps st = [st]"
| "rmatch (Lit c) (p, s) =
     (case s of [] \<Rightarrow> []
      | x # xs \<Rightarrow> if lower_char x = lower_char c then [(Some x, xs)] else [])"
| "rmatch WordB st = (if is_boundary st then [st] else [])"
| "rmatch (Plus k) (p, s) =
     (case s of [] \<Rightarrow> []
      | x # xs \<Rightarrow> if in_class k x then star_class k (Some x) xs else [])"
| "rmatch (Star k) (p, s) = star_class k p s"
| "rmatch (Seq a b) st = concat (map (rmatch b) (rmatch a st))"
| "rmatch (Alt a b) st = rmatch a st @ rmatch b st"
| "rmatch (Opt a) st = rmatch a st @ [st]"

text \<open>\<^verbatim>\<open>re.search\<close> as a truth value: some position of the text starts a match.\<close>

fun search_from :: "regex \<Rightarrow> char option \<Rightarrow> string \<Rightarrow> bool" where
  "search_from r p [] = (rmatch r (p, []) \<noteq> [])"
| "search_from r p (x # xs) = (rmatch r (p, x # xs) \<noteq> [] \<or> search_from r (Some x) xs)"

definition re_search :: "regex \<Rightarrow> string \<Rightarrow> bool" where
  "re_search r s = search_from r None s"

text \<open>A word of literal characters.\<close>

fun lits :: "string \<Rightarrow> regex" where
  "lits [] = Eps"
| "lits (c # cs) = Seq (Lit c) (lits cs)"

text \<open>\<^verbatim>\<open>\b\d+(\.\d+)?\s*(ml|mL|l|L|g|gm|kg)\b\<close>\<close>

definition pat_amount :: regex where
  "pat_amount =
     Seq WordB (Seq (Plus CDigit) (Seq (Opt (Seq (Lit (CHR ''.'')) (Plus CDigit)))
       (Seq (Star CSpace)
         (Seq (Alt (lits ''ml'') (Alt (lits ''mL'') (Alt (lits ''l'') (Alt (lits ''L'')
                (Alt (lits ''g'') (Alt (lits ''gm'') (lits ''kg''))))))) WordB))))"

text \<open>\<^verbatim>\<open>\b(per|/)\s*(l|L|liter|litre|kg)\b\<close>\<close>

definition pat_per :: regex where
  "pat_per =
     Seq WordB (Seq (Alt (lits ''per'') (lits ''/''))
       (Seq (Star CSpace)
         (Seq (Alt (lits ''l'') (Alt (lits ''L'') (Alt (lits ''liter'')
                (Alt (lits ''litre'') (lits ''kg''))))) WordB)))"

text \<open>\<^verbatim>\<open>\bmix\b\<close>, \<^verbatim>\<open>\bdose\b\<close>, \<^verbatim>\<open>\bppm\b\<close>\<close>

definition pat_mix :: regex where
  "pat_mix = Seq WordB (Seq (lits ''mix'') WordB)"

definition pat_dose :: regex where
  "pat_dose = Seq WordB (Seq (lits ''dose'') WordB)"

definition pat_ppm :: regex where
  "pat_ppm = Seq WordB (Seq (lits ''ppm'') WordB)"







definition risky_patterns :: "regex list" where
  "risky_patterns = [pat_amount, pat_per, pat_mix, pat_dose, pat_ppm]"

section \<open>Merge engine: context (graph.py, \<^verbatim>\<open>_merge_context\<close>)\<close>

text \<open>\<^verbatim>\<open>stage if stage in allowed else "unknown"\<close>\<close>

definition normalize_stage :: "string \<Rightarrow> crop_stage" where
  "normalize_stage s = (case parse_stage s of None \<Rightarrow> Unknown | Some st \<Rightarrow> st)"

text \<open>
  \<^verbatim>\<open>FarmerContext.model_validate\<close> on a dumped context: the only constraints of the model are
  the ranges of latitude and longitude.
\<close>

definition lat_ok :: "real option \<Rightarrow> bool" where
  "lat_ok v = (case v of None \<Rightarrow> True | Some x \<Rightarrow> - 90 \<le> x \<and> x \<le> 90)"

definition lon_ok :: "real option \<Rightarrow> bool" where
  "lon_ok v = (case v of None \<Rightarrow> True | Some x \<Rightarrow> - 180 \<le> x \<and> x \<le> 180)"

definition validate_context :: "farmer_context \<Rightarrow> error + farmer_context" where
  "validate_context c = (if lat_ok (lat c) \<and> lon_ok (lon c) then Inr c else Inl ValidationError)"

text \<open>One \<^verbatim>\<open>if upd.f and upd.f.strip(): data["f"] = upd.f.strip()\<close> step.\<close>

definition overwrite :: "string option \<Rightarrow> string option \<Rightarrow> string option" where
  "overwrite old_v v =
     (case v of
        None \<Rightarrow> old_v
      | Some t \<Rightarrow> if nonblank (Some t) then Some (strip t) else old_v)"

definition merge_context :: "farmer_context \<Rightarrow> intake_extraction \<Rightarrow> error + farmer_context" where
  "merge_context old upd =
     validate_context
       \<lparr> crop = (case upd_crop upd of
                   None \<Rightarrow> crop old
                 | Some t \<Rightarrow> if nonblank (Some t) then Some (lower (strip t)) else crop old),
         stage = (case upd_stage upd of
                    None \<Rightarrow> stage old
                  | Some t \<Rightarrow> if nonblank (Some t) then normalize_stage (lower (strip t))
                              else stage old),
         location_text = overwrite (location_text old) (upd_location_text upd),
         lat = lat old,
         lon = lon old,
         sowing_date = overwrite (sowing_date old) (upd_sowing_date upd),
         irrigation = overwrite (irrigation old) (upd_irrigation upd),
         soil_type = overwrite (soil_type old) (upd_soil_type upd),
         farmer_notes = overwrite (farmer_notes old) (upd_notes upd) \<rparr>"

section \<open>Guardrail engine (graph.py, \<^verbatim>\<open>_guardrails\<close> and \<^verbatim>\<open>_sanitize_advisory\<close>)\<close>

text \<open>The text that \<^verbatim>\<open>_guardrails\<close> scans: headline, actions and watch items, lower-cased.\<close>

definition joined_text :: "advisory \<Rightarrow> string" where
  "joined_text adv = lower (join '' '' ([headline adv] @ actions_now adv @ watch_out_for adv))"

definition guardrails :: "advisory \<Rightarrow> graph_state \<Rightarrow> guardrail_result" where
  "guardrails adv st =
     (let hit = list_ex (\<lambda>pat. re_search pat (joined_text adv)) risky_patterns;
          high = (urgency (observation st) = High);
          alert = (case weather st of None \<Rightarrow> False | Some w \<Rightarrow> alerts w \<noteq> []);
          rs = (if hit then [''Contains potentially unsafe dosage/mixing-style details.''] else [])
             @ (if high then [''High urgency reported; recommend expert verification.''] else [])
             @ (if alert then [''Weather alerts present; recommend extra caution.''] else []);
          needs_human = (hit \<or> high \<or> alert)
      in \<lparr> ok = (\<not> needs_human), reasons = rs, guard_needs_human_review = needs_human \<rparr>)"

text \<open>The local function \<^verbatim>\<open>is_risky_line\<close> of \<^verbatim>\<open>_sanitize_advisory\<close>, with its two searches.\<close>

definition is_risky_line :: "string \<Rightarrow> bool" where
  "is_risky_line line =
     (if line = [] then False
      else re_search pat_amount line \<or> re_search (Alt pat_mix (Alt pat_dose pat_ppm)) line)"

definition fallback_action :: string where
  "fallback_action = ''Consult a local agriculture officer/extension worker for treatment options.''"

definition safety_disclaimer :: string where
  "safety_disclaimer = ''Avoid chemical dosage/mixing without local expert guidance.''"

definition sanitize_advisory :: "advisory \<Rightarrow> guardrail_result \<Rightarrow> advisory" where
  "sanitize_advisory adv guard =
     (if \<not> guard_needs_human_review guard then adv
      else
        let kept = filter (\<lambda>a. \<not> is_risky_line a) (actions_now adv);
            safe_actions = (if length kept = 0 then [fallback_action] else kept);
            notes = safety_notes adv @ [safety_disclaimer] @ take 2 (reasons guard)
        in adv \<lparr> actions_now := take 7 safe_actions,
                 safety_notes := take 6 notes,
                 needs_human_review := True,
                 confidence := Conf_low \<rparr>)"

section \<open>Freshness policy and router (graph.py)\<close>

text \<open>
  A parsed time stamp is a number of microseconds since the epoch, with or without a UTC
  offset. \<^verbatim>\<open>datetime.fromisoformat\<close> is a parameter \<open>parse\<close> of the model (\<open>None\<close> where it
  raises), and the current time \<open>now\<close>, which carries an offset, is another. Subtracting a
  time stamp without offset from \<open>now\<close> raises \<^verbatim>\<open>TypeError\<close>.
\<close>

datatype datetime = Naive int | Aware int

definition age_exceeds :: "int \<Rightarrow> datetime \<Rightarrow> int \<Rightarrow> error + bool" where
  "age_exceeds now dt max_age_hours =
     (case dt of
        Naive t \<Rightarrow> Inl TypeError
      | Aware t \<Rightarrow> Inr (now - t > max_age_hours * 3600000000))"

definition is_weather_stale ::
  "(string \<Rightarrow> datetime option) \<Rightarrow> int \<Rightarrow> graph_state \<Rightarrow> int \<Rightarrow> error + bool" where
  "is_weather_stale parse now st max_age_hours =
     (case weather st of
        None \<Rightarrow> Inr True
      | Some w \<Rightarrow>
          (case parse (fetched_at_utc w) of
             None \<Rightarrow> Inr True
           | Some dt \<Rightarrow> age_exceeds now dt max_age_hours))"

definition is_web_stale ::
  "(string \<Rightarrow> datetime option) \<Rightarrow> int \<Rightarrow> graph_state \<Rightarrow> int \<Rightarrow> error + bool" where
  "is_web_stale parse now st max_age_hours =
     (case web st of
        None \<Rightarrow> Inr True
      | Some w \<Rightarrow>
          (case parse (web_fetched_at_utc w) of
             None \<Rightarrow> Inr True
           | Some dt \<Rightarrow> age_exceeds now dt max_age_hours))"

text \<open>
  The truth value Python gives to an optional number (\<^verbatim>\<open>c.lat and c.lon\<close>): \<^verbatim>\<open>None\<close>
  and zero are both false.
\<close>

fun truthy_num :: "real option \<Rightarrow> bool" where
  "truthy_num None = False"
| "truthy_num (Some x) = (x \<noteq> 0)"

datatype step = Ask | Weather | Web | Advice

definition route :: "(string \<Rightarrow> datetime option) \<Rightarrow> int \<Rightarrow> graph_state \<Rightarrow> error + step" where
  "route parse now st =
     (let c = ctx st;
          web_or_advice =
            (if symptoms (observation st) \<noteq> []
             then (case is_web_stale parse now st 24 of
                     Inl e \<Rightarrow> Inl e
                   | Inr stale \<Rightarrow> if stale then Inr Web else Inr Advice)
             else Inr Advice)
      in
      if \<not> (truthy_num (lat c) \<and> truthy_num (lon c)) \<and> \<not> nonblank (location_text c)
      then Inr Ask
      else if \<not> nonblank (crop c) then Inr Ask
      else if stage c = Unknown then Inr Ask
      else if truthy_num (lat c) \<and> truthy_num (lon c)
      then (case is_weather_stale parse now st 6 of
              Inl e \<Rightarrow> Inl e
            | Inr stale \<Rightarrow> if stale then Inr Weather else web_or_advice)
      else web_or_advice)"

section \<open>Node actions (graph.py)\<close>

text \<open>
  A node returns a dictionary of the fields it sets, which the graph runtime writes into the
  state it passed to the node; the model returns that updated state, or the exception that
  leaves the node. The calls to the tools and to the language model are parameters. A tool
  returns, raises \<^verbatim>\<open>ToolError\<close>, or raises something else.
\<close>

datatype 'a tool_result = Returned 'a | ToolError | Raised error

text \<open>
  The outcome of \<^verbatim>\<open>_http_get_json\<close> (tools.py). Its \<^verbatim>\<open>@retry\<close> decorator retries on
  \<^verbatim>\<open>httpx.TimeoutException\<close> and \<^verbatim>\<open>httpx.TransportError\<close>, stops after three attempts, and
  has no \<^verbatim>\<open>reraise=True\<close>: when the third attempt fails in that way the call raises
  \<^verbatim>\<open>tenacity.RetryError\<close>, which is not an \<^verbatim>\<open>httpx.HTTPError\<close>. An HTTP status error and
  the remaining HTTP errors are not retried and come out as they are.
\<close>

datatype 'a http_outcome = Response 'a | HTTPStatusError | OtherHTTPError | RetriesExhausted

text \<open>
  \<^verbatim>\<open>fetch_weather_onecall\<close> (tools.py): the two \<^verbatim>\<open>except\<close> clauses turn the HTTP errors into
  \<^verbatim>\<open>ToolError\<close>; nothing catches \<^verbatim>\<open>RetryError\<close>. The parameter \<open>build\<close> stands for the check
  that the response is a JSON object and for the construction of the snapshot from it
  (\<open>None\<close> for an invalid response).
\<close>

definition fetch_weather_onecall ::
  "(real \<Rightarrow> real \<Rightarrow> string http_outcome) \<Rightarrow> (string \<Rightarrow> weather_snapshot option)
     \<Rightarrow> real \<Rightarrow> real \<Rightarrow> weather_snapshot tool_result" where
  "fetch_weather_onecall http_get build la lo =
     (case http_get la lo of
        HTTPStatusError \<Rightarrow> ToolError
      | OtherHTTPError \<Rightarrow> ToolError
      | RetriesExhausted \<Rightarrow> Raised RetryError
      | Response onecall \<Rightarrow>
          (case build onecall of None \<Rightarrow> ToolError | Some snap \<Rightarrow> Returned snap))"

definition set_coords :: "farmer_context \<Rightarrow> real \<Rightarrow> real \<Rightarrow> farmer_context" where
  "set_coords c la lo = c \<lparr> lat := Some la, lon := Some lo \<rparr>"

text \<open>
  The first half of \<^verbatim>\<open>weather_node\<close>: the context after the attempt to geocode, made only
  where \<^verbatim>\<open>c.lat and c.lon\<close> is false and the location text is not empty. Only \<^verbatim>\<open>ToolError\<close>
  is caught. The inner assignment of the resolved name happens only for an empty location
  text, which cannot be the case where geocoding was tried; it is kept as the code has it.
\<close>

definition geocoded_context ::
  "(string \<Rightarrow> (real option \<times> real option \<times> string option) tool_result)
     \<Rightarrow> farmer_context \<Rightarrow> error + farmer_context" where
  "geocoded_context geocode c =
     (if \<not> (truthy_num (lat c) \<and> truthy_num (lon c))
      then (case location_text c of
              None \<Rightarrow> Inr c
            | Some loc \<Rightarrow>
                if loc = [] then Inr c
                else (case geocode loc of
                        ToolError \<Rightarrow> Inr c
                      | Raised e \<Rightarrow> Inl e
                      | Returned (Some la, Some lo, resolved) \<Rightarrow>
                          (let c' = set_coords c la lo in
                           (case resolved of
                              None \<Rightarrow> Inr c'
                            | Some name \<Rightarrow>
                                if name \<noteq> [] \<and> (location_text c' = None \<or> location_text c' = Some [])
                                then Inr (c' \<lparr> location_text := Some name \<rparr>) else Inr c'))
                      | Returned _ \<Rightarrow> Inr c))
      else Inr c)"

text \<open>
  \<^verbatim>\<open>weather_node\<close>. The second test \<^verbatim>\<open>not (s.context.lat and s.context.lon)\<close> fails exactly
  when both coordinates are present and not zero; only then is the weather fetched, and only
  \<^verbatim>\<open>ToolError\<close> is caught around the fetch.
\<close>

definition weather_node ::
  "(string \<Rightarrow> (real option \<times> real option \<times> string option) tool_result)
     \<Rightarrow> (real \<Rightarrow> real \<Rightarrow> weather_snapshot tool_result)
     \<Rightarrow> graph_state \<Rightarrow> error + graph_state" where
  "weather_node geocode fetch st =
     (case geocoded_context geocode (ctx st) of
        Inl e \<Rightarrow> Inl e
      | Inr c \<Rightarrow>
          (case (lat c, lon c) of
             (Some la, Some lo) \<Rightarrow>
               if la \<noteq> 0 \<and> lo \<noteq> 0
               then (case fetch la lo of
                       Returned snap \<Rightarrow>
                         Inr (st \<lparr> weather := Some snap, ctx := c, last_node := Some ''weather'' \<rparr>)
                     | ToolError \<Rightarrow>
                         Inr (st \<lparr> weather := weather st, ctx := c, last_node := Some ''weather'' \<rparr>)
                     | Raised e \<Rightarrow> Inl e)
               else Inr (st \<lparr> ctx := c, weather := None, last_node := Some ''weather'' \<rparr>)
           | _ \<Rightarrow> Inr (st \<lparr> ctx := c, weather := None, last_node := Some ''weather'' \<rparr>)))"

text \<open>
  The fixed questions of \<^verbatim>\<open>_ask_message_for_missing\<close>. Their typographic bullets, dash and
  apostrophe are written in ASCII here.
\<close>

definition ask_message_for_missing :: "graph_state \<Rightarrow> string" where
  "ask_message_for_missing st =
     (let c = ctx st in
      if (\<not> truthy_num (lat c) \<or> \<not> truthy_num (lon c)) \<and> \<not> nonblank (location_text c)
      then ''To guide you accurately, share your location:''
           @ [CHR 0x0A] @ ''* Village/City + District/State, OR''
           @ [CHR 0x0A] @ ''* Coordinates like: 19.07,72.87''
      else if \<not> nonblank (crop c)
      then ''Which crop are you growing? (e.g., cotton, wheat, tomato)''
      else if stage c = Unknown
      then ''Which crop stage are you in?''
           @ [CHR 0x0A]
           @ ''Options: sowing, germination, vegetative, flowering, fruiting, maturity, harvest''
      else if symptoms (observation st) \<noteq> [] \<and> web st = None
      then ''Can you share 1-2 clear symptoms and how many days you have noticed them? (Also mention irrigation frequency.)''
      else ''Share any recent changes (rain/irrigation/fertilizer) and I will update your next actions.'')"

definition ask_node :: "graph_state \<Rightarrow> graph_state" where
  "ask_node st =
     (let msg = ask_message_for_missing (st \<lparr> last_node := Some ''ask'' \<rparr>) in
      st \<lparr> messages := compact_messages 16 (add_assistant msg (messages st)),
           last_node := Some ''ask'',
           advisory := None \<rparr>)"

definition advice_fallback_message :: string where
  "advice_fallback_message =
     ''I could not generate a reliable plan from the current details.''
     @ [CHR 0x0A]
     @ ''Please share crop + stage + location (village/district) and 1-2 symptoms.''"

text \<open>The concise summary of the advisory that \<^verbatim>\<open>advice_node\<close> appends to the history.\<close>

definition summary_lines :: "advisory \<Rightarrow> string list" where
  "summary_lines adv2 =
     [headline adv2]
     @ (if actions_now adv2 \<noteq> []
        then [''Actions: '' @ join ''; '' (take 4 (actions_now adv2))] else [])
     @ (if watch_out_for adv2 \<noteq> []
        then [''Watch: '' @ join ''; '' (take 3 (watch_out_for adv2))] else [])
     @ (if next_questions adv2 \<noteq> []
        then [''Next: '' @ join ''; '' (take 2 (next_questions adv2))] else [])
     @ (if needs_human_review adv2 then [''Note: Recommend local expert review.''] else [])"

text \<open>
  \<^verbatim>\<open>advice_node\<close>. The parameter \<open>llm\<close> is the outcome of \<^verbatim>\<open>_llm_json\<close>: \<open>None\<close> where it
  raises, the JSON object otherwise. A failure of the call and a failure of
  \<^verbatim>\<open>safe_parse_advisory\<close> take the same \<^verbatim>\<open>except\<close> branch.
\<close>

definition advice_node :: "advisory_data option \<Rightarrow> graph_state \<Rightarrow> graph_state" where
  "advice_node llm st =
     (case (case llm of None \<Rightarrow> Inl ValidationError | Some d \<Rightarrow> safe_parse_advisory d) of
        Inl e \<Rightarrow>
          st \<lparr> messages := add_assistant advice_fallback_message (messages st),
               advisory := None,
               last_node := Some ''advice'' \<rparr>
      | Inr adv \<Rightarrow>
          (let guard = guardrails adv (st \<lparr> last_node := Some ''advice'' \<rparr>);
               adv2 = sanitize_advisory adv guard
           in st \<lparr> advisory := Some adv2,
                    messages := compact_messages 16
                      (add_assistant (join [CHR 0x0A] (summary_lines adv2)) (messages st)),
                    last_node := Some ''advice'' \<rparr>))"

text \<open>The start of \<^verbatim>\<open>run_turn\<close>, before the graph is invoked.\<close>

definition begin_turn :: "graph_state \<Rightarrow> string \<Rightarrow> graph_state" where
  "begin_turn st user_text =
     st \<lparr> messages := compact_messages 16 (add_user user_text (messages st)),
          turn_count := turn_count st + 1 \<rparr>"

section \<open>Example inputs\<close>

definition empty_context :: farmer_context where
  "empty_context =
     \<lparr> crop = None, stage = Unknown, location_text = None, lat = None, lon = None,
       sowing_date = None, irrigation = None, soil_type = None, farmer_notes = None \<rparr>"

definition no_update :: intake_extraction where
  "no_update =
     \<lparr> upd_crop = None, upd_stage = None, upd_location_text = None, upd_sowing_date = None,
       upd_irrigation = None, upd_soil_type = None, upd_notes = None, upd_symptoms = [],
       upd_pests_seen = [], upd_urgency = None \<rparr>"

definition calm_observation :: observation where
  "calm_observation = \<lparr> symptoms = [], pests_seen = [], images_hint = None, urgency = Low \<rparr>"

definition empty_state :: graph_state where
  "empty_state =
     \<lparr> chat_id = ''42'', messages = [], ctx = empty_context, observation = calm_observation,
       weather = None, web = None, advisory = None, last_node = None, turn_count = 0 \<rparr>"

definition urgent_state :: graph_state where
  "urgent_state = empty_state \<lparr> observation := calm_observation \<lparr> urgency := High \<rparr> \<rparr>"

definition benign_advisory :: advisory where
  "benign_advisory =
     \<lparr> headline = ''Leaf care'', adv_stage = Vegetative,
       actions_now = [''Irrigate lightly in the morning''], watch_out_for = [],
       next_questions = [], rationale_brief = [], confidence = Conf_medium,
       safety_notes = [], needs_human_review = False \<rparr>"

definition per_litre_advisory :: advisory where
  "per_litre_advisory =
     benign_advisory \<lparr> actions_now := [''Add 2 spoons per litre of water''] \<rparr>"

definition passing_guard :: guardrail_result where
  "passing_guard = \<lparr> ok = True, reasons = [], guard_needs_human_review = False \<rparr>"

definition urgent_guard :: guardrail_result where
  "urgent_guard =
     \<lparr> ok = False, reasons = [''High urgency reported; recommend expert verification.''],
       guard_needs_human_review = True \<rparr>"

definition zero_latitude_state :: graph_state where
  "zero_latitude_state =
     empty_state \<lparr> ctx := empty_context \<lparr> crop := Some ''wheat'', stage := Vegetative,
                                          lat := Some 0, lon := Some 72.87 \<rparr> \<rparr>"

definition old_snapshot :: weather_snapshot where
  "old_snapshot =
     \<lparr> fetched_at_utc = ''2026-01-31T12:00:00+00:00'', summary = ''Clear: clear sky'',
       alerts = [], daily = [], hourly = [] \<rparr>"

definition located_state :: graph_state where
  "located_state =
     empty_state \<lparr> ctx := empty_context \<lparr> crop := Some ''wheat'', stage := Vegetative,
                                          lat := Some 19.07, lon := Some 72.87 \<rparr>,
                   weather := Some old_snapshot \<rparr>"

definition geocode_fails ::
  "string \<Rightarrow> (real option \<times> real option \<times> string option) tool_result" where
  "geocode_fails place = ToolError"

definition http_times_out :: "real \<Rightarrow> real \<Rightarrow> string http_outcome" where
  "http_times_out la lo = RetriesExhausted"

definition http_status_error :: "real \<Rightarrow> real \<Rightarrow> string http_outcome" where
  "http_status_error la lo = HTTPStatusError"



definition full_history_state :: graph_state where
  "full_history_state =
     empty_state \<lparr> messages := replicate 16 \<lparr> role = ''user'', content = ''hello'' \<rparr> \<rparr>"

definition many_notes_data :: advisory_data where
  "many_notes_data =
     \<lparr> data_headline = Some ''Leaf care'', data_stage = Some ''vegetative'',
       data_actions_now = ['' Scout the field '', ''  '', ''Remove weeds''],
       data_watch_out_for = [], data_next_questions = [],
       data_rationale_brief = None, data_confidence = None,
       data_safety_notes = [''n1'', '' '', ''n3'', ''n4'', ''n5'', ''n6'', ''n7''],
       data_needs_human_review = None \<rparr>"

definition many_notes_advisory :: advisory where
  "many_notes_advisory =
     \<lparr> headline = ''Leaf care'', adv_stage = Vegetative,
       actions_now = [''Scout the field'', ''Remove weeds''], watch_out_for = [],
       next_questions = [], rationale_brief = [], confidence = Conf_medium,
       safety_notes = [''n1'', '' '', ''n3'', ''n4'', ''n5'', ''n6'', ''n7''],
       needs_human_review = False \<rparr>"

section \<open>Properties\<close>

subsection \<open>Stripping\<close>

lemma dropWhile_self: "xs = [] \<or> \<not> P (hd xs) \<Longrightarrow> dropWhile P xs = xs"
  by (cases xs) auto

lemma strip_prefix: "\<exists>w. dropWhile is_space s = strip s @ w"
proof -
  let ?t = "dropWhile is_space s"
  have "rev ?t = takeWhile is_space (rev ?t) @ dropWhile is_space (rev ?t)"
    by simp
  then have "rev (rev ?t) = rev (dropWhile is_space (rev ?t)) @ rev (takeWhile is_space (rev ?t))"
    by (metis rev_append)
  then show ?thesis
    by (auto simp: strip_def)
qed

lemma strip_head: "strip s \<noteq> [] \<Longrightarrow> \<not> is_space (hd (strip s))"
proof -
  assume ne: "strip s \<noteq> []"
  obtain w where w: "dropWhile is_space s = strip s @ w"
    using strip_prefix by blast
  then have "hd (strip s) = hd (dropWhile is_space s)"
    using ne by simp
  moreover have "dropWhile is_space s \<noteq> []"
    using w ne by simp
  ultimately show ?thesis
    by (simp add: hd_dropWhile)
qed

lemma strip_idem: "strip (strip s) = strip s"
proof -
  have a: "dropWhile is_space (strip s) = strip s"
    using strip_head [of s] by (intro dropWhile_self) auto
  have "strip (strip s) = rev (dropWhile is_space (rev (strip s)))"
    by (simp add: strip_def [of "strip s"] a)
  also have "rev (strip s) = dropWhile is_space (rev (dropWhile is_space s))"
    by (simp add: strip_def)
  also have "rev (dropWhile is_space (dropWhile is_space (rev (dropWhile is_space s)))) = strip s"
    by (simp add: strip_def)
  finally show ?thesis .
qed

lemma strip_entries_clean: "x \<in> set (strip_entries v) \<Longrightarrow> x \<noteq> [] \<and> strip x = x"
  by (auto simp: strip_entries_def strip_idem)

subsection \<open>Searching a lower-cased text\<close>















subsection \<open>Merge engine\<close>

lemma merge_urgency_cases:
  "merge_urgency old_u v = old_u \<or>
   (\<exists>s u. v = Some s \<and> parse_urgency (lower (strip s)) = Some u
      \<and> urgency_order old_u < urgency_order u \<and> merge_urgency old_u v = u)"
  by (auto simp: merge_urgency_def split: option.splits)

text \<open>
  C4. For every observation and every partial update the merged urgency is at least the old
  one under low < medium < high. When the update carries a valid urgency word (after
  stripping and lower-casing), the merged urgency is the larger of the old and the new level,
  so a new "low" never replaces an existing "high".
\<close>

theorem merge_observation_urgency_monotone:
  "urgency_order (urgency old) \<le> urgency_order (urgency (merge_observation old upd))
   \<and> (\<forall>s u. upd_urgency upd = Some s \<and> parse_urgency (lower (strip s)) = Some u \<longrightarrow>
         urgency_order (urgency (merge_observation old upd))
           = max (urgency_order (urgency old)) (urgency_order u)
         \<and> urgency (merge_observation old upd)
           = (if urgency_order u > urgency_order (urgency old) then u else urgency old))"
proof -
  have mono: "urgency_order (urgency old) \<le> urgency_order (urgency (merge_observation old upd))"
    using merge_urgency_cases [of "urgency old" "upd_urgency upd"]
    by (auto simp: merge_observation_def)
  have valid: "urgency (merge_observation old upd)
           = (if urgency_order u > urgency_order (urgency old) then u else urgency old)"
    if "upd_urgency upd = Some s" "parse_urgency (lower (strip s)) = Some u" for s u
  proof -
    have "s \<noteq> []"
      using that(2) by (auto simp: strip_def lower_def parse_urgency_def split: if_splits)
    then show ?thesis
      using that by (simp add: merge_observation_def merge_urgency_def)
  qed
  show ?thesis
    using mono valid by (auto simp: max_def)
qed

theorem merge_observation_urgency_monotone_witness:
  "urgency (merge_observation (calm_observation \<lparr> urgency := High \<rparr>)
              (no_update \<lparr> upd_urgency := Some '' Low '' \<rparr>)) = High"
proof -
  have p: "parse_urgency (lower (strip '' Low '')) = Some Low"
    by code_simp
  show ?thesis
    using merge_observation_urgency_monotone
      [of "calm_observation \<lparr> urgency := High \<rparr>" "no_update \<lparr> upd_urgency := Some '' Low '' \<rparr>"] p
    by (simp add: calm_observation_def no_update_def)
qed

text \<open>
  C5. For a context within the latitude and longitude ranges, merging a partial update
  succeeds. Each text field whose update value is present and not blank is overwritten with
  the stripped value (the crop also lower-cased, the stage replaced by the stage that the
  stripped, lower-cased word names, \<open>Unknown\<close> for any other word); each field whose update
  value is absent or blank keeps its old value; latitude and longitude are never touched; and
  no optional field that held a value is left without one.
\<close>

theorem merge_context_frame:
  assumes "lat_ok (lat old)" and "lon_ok (lon old)"
  shows "\<exists>new. merge_context old upd = Inr new
     \<and> crop new = (case upd_crop upd of None \<Rightarrow> crop old
                   | Some t \<Rightarrow> if t \<noteq> [] \<and> strip t \<noteq> [] then Some (lower (strip t)) else crop old)
     \<and> stage new = (case upd_stage upd of None \<Rightarrow> stage old
                   | Some t \<Rightarrow> if t \<noteq> [] \<and> strip t \<noteq> [] then normalize_stage (lower (strip t))
                                else stage old)
     \<and> location_text new = (case upd_location_text upd of None \<Rightarrow> location_text old
                   | Some t \<Rightarrow> if t \<noteq> [] \<and> strip t \<noteq> [] then Some (strip t) else location_text old)
     \<and> sowing_date new = (case upd_sowing_date upd of None \<Rightarrow> sowing_date old
                   | Some t \<Rightarrow> if t \<noteq> [] \<and> strip t \<noteq> [] then Some (strip t) else sowing_date old)
     \<and> irrigation new = (case upd_irrigation upd of None \<Rightarrow> irrigation old
                   | Some t \<Rightarrow> if t \<noteq> [] \<and> strip t \<noteq> [] then Some (strip t) else irrigation old)
     \<and> soil_type new = (case upd_soil_type upd of None \<Rightarrow> soil_type old
                   | Some t \<Rightarrow> if t \<noteq> [] \<and> strip t \<noteq> [] then Some (strip t) else soil_type old)
     \<and> farmer_notes new = (case upd_notes upd of None \<Rightarrow> farmer_notes old
                   | Some t \<Rightarrow> if t \<noteq> [] \<and> strip t \<noteq> [] then Some (strip t) else farmer_notes old)
     \<and> lat new = lat old \<and> lon new = lon old
     \<and> (crop old \<noteq> None \<longrightarrow> crop new \<noteq> None)
     \<and> (location_text old \<noteq> None \<longrightarrow> location_text new \<noteq> None)
     \<and> (sowing_date old \<noteq> None \<longrightarrow> sowing_date new \<noteq> None)
     \<and> (irrigation old \<noteq> None \<longrightarrow> irrigation new \<noteq> None)
     \<and> (soil_type old \<noteq> None \<longrightarrow> soil_type new \<noteq> None)
     \<and> (farmer_notes old \<noteq> None \<longrightarrow> farmer_notes new \<noteq> None)"
  using assms
  by (auto simp: merge_context_def validate_context_def overwrite_def split: option.splits)

text \<open>Outside the ranges the final validation raises, whatever the update.\<close>

lemma merge_context_out_of_range:
  "\<not> (lat_ok (lat old) \<and> lon_ok (lon old)) \<Longrightarrow> merge_context old upd = Inl ValidationError"
  by (auto simp: merge_context_def validate_context_def)

theorem merge_context_frame_witness:
  "lat_ok (lat (empty_context \<lparr> crop := Some ''wheat'', lat := Some 19.07 \<rparr>))
   \<and> lon_ok (lon (empty_context \<lparr> crop := Some ''wheat'', lat := Some 19.07 \<rparr>))
   \<and> (\<exists>new. merge_context (empty_context \<lparr> crop := Some ''wheat'', lat := Some 19.07 \<rparr>)
                (no_update \<lparr> upd_crop := Some ''  '', upd_soil_type := Some '' Black '' \<rparr>)
              = Inr new
         \<and> crop new = Some ''wheat'' \<and> lat new = Some 19.07 \<and> irrigation new = None
         \<and> soil_type new = Some (strip '' Black ''))"
proof -
  let ?old = "empty_context \<lparr> crop := Some ''wheat'', lat := Some 19.07 \<rparr>"
  let ?upd = "no_update \<lparr> upd_crop := Some ''  '', upd_soil_type := Some '' Black '' \<rparr>"
  have la: "lat_ok (lat ?old)" and lo: "lon_ok (lon ?old)"
    by (simp_all add: empty_context_def lat_ok_def lon_ok_def)
  have blank: "strip ''  '' = []" and black: "strip '' Black '' \<noteq> []"
    by code_simp+
  from merge_context_frame [OF la lo, of ?upd] obtain new where
    "merge_context ?old ?upd = Inr new"
    "crop new = (case upd_crop ?upd of None \<Rightarrow> crop ?old
                   | Some t \<Rightarrow> if t \<noteq> [] \<and> strip t \<noteq> [] then Some (lower (strip t)) else crop ?old)"
    "irrigation new = (case upd_irrigation ?upd of None \<Rightarrow> irrigation ?old
                   | Some t \<Rightarrow> if t \<noteq> [] \<and> strip t \<noteq> [] then Some (strip t) else irrigation ?old)"
    "soil_type new = (case upd_soil_type ?upd of None \<Rightarrow> soil_type ?old
                   | Some t \<Rightarrow> if t \<noteq> [] \<and> strip t \<noteq> [] then Some (strip t) else soil_type ?old)"
    "lat new = lat ?old"
    by blast
  then have "merge_context ?old ?upd = Inr new
         \<and> crop new = Some ''wheat'' \<and> lat new = Some 19.07 \<and> irrigation new = None
         \<and> soil_type new = Some (strip '' Black '')"
    using blank black by (simp add: empty_context_def no_update_def)
  then show ?thesis
    using la lo by blast
qed

subsection \<open>Guardrail engine\<close>
















text \<open>
  C10. In every guardrail result the verdict is the negation of the review flag, and the list
  of reasons is non-empty exactly when the review flag is set.
\<close>

theorem guardrails_consistent:
  "ok (guardrails adv st) = (\<not> guard_needs_human_review (guardrails adv st))
   \<and> (reasons (guardrails adv st) \<noteq> []) = guard_needs_human_review (guardrails adv st)"
  by (simp add: guardrails_def Let_def)

theorem guardrails_consistent_witness:
  "\<not> ok (guardrails benign_advisory urgent_state)
   \<and> reasons (guardrails benign_advisory urgent_state) \<noteq> []"
proof -
  have "guard_needs_human_review (guardrails benign_advisory urgent_state)"
    by (simp add: guardrails_def Let_def urgent_state_def)
  then show ?thesis
    using guardrails_consistent [of benign_advisory urgent_state] by simp
qed

lemma fallback_not_risky: "\<not> is_risky_line fallback_action"
  by code_simp

lemma sanitize_unflagged: "\<not> guard_needs_human_review g \<Longrightarrow> sanitize_advisory a g = a"
  by (simp add: sanitize_advisory_def)

lemma sanitize_actions:
  "guard_needs_human_review g \<Longrightarrow>
   actions_now (sanitize_advisory a g) =
     take 7 (if filter (\<lambda>x. \<not> is_risky_line x) (actions_now a) = [] then [fallback_action]
             else filter (\<lambda>x. \<not> is_risky_line x) (actions_now a))"
  by (simp add: sanitize_advisory_def Let_def)

lemma sanitize_notes:
  "guard_needs_human_review g \<Longrightarrow>
   safety_notes (sanitize_advisory a g)
     = take 6 (safety_notes a @ [safety_disclaimer] @ take 2 (reasons g))"
  by (simp add: sanitize_advisory_def Let_def)

text \<open>
  What sanitising a flagged advisory does guarantee: no remaining action is a risky line in
  the sense of \<^verbatim>\<open>is_risky_line\<close>, at least one action remains, the review flag is set and
  the confidence is low.
\<close>

lemma sanitize_actions_safe:
  assumes "guard_needs_human_review g" "x \<in> set (actions_now (sanitize_advisory a g))"
  shows "\<not> is_risky_line x"
proof -
  from assms have "x \<in> set (if filter (\<lambda>x. \<not> is_risky_line x) (actions_now a) = []
             then [fallback_action]
             else filter (\<lambda>x. \<not> is_risky_line x) (actions_now a))"
    by (auto simp: sanitize_actions dest: in_set_takeD)
  then show ?thesis
    using fallback_not_risky by (auto split: if_splits)
qed

lemma sanitize_actions_nonempty:
  "guard_needs_human_review g \<Longrightarrow> actions_now (sanitize_advisory a g) \<noteq> []"
  by (simp add: sanitize_actions)

lemma sanitize_flagged_fields:
  "guard_needs_human_review g \<Longrightarrow>
   needs_human_review (sanitize_advisory a g) \<and> confidence (sanitize_advisory a g) = Conf_low"
  by (simp add: sanitize_advisory_def Let_def)

lemma sanitize_actions_idem:
  assumes "guard_needs_human_review g"
  shows "actions_now (sanitize_advisory (sanitize_advisory a g) g)
           = actions_now (sanitize_advisory a g)"
proof -
  let ?s = "sanitize_advisory a g"
  have f: "filter (\<lambda>x. \<not> is_risky_line x) (actions_now ?s) = actions_now ?s"
    using sanitize_actions_safe [OF assms] by (simp add: filter_id_conv)
  have l: "length (actions_now ?s) \<le> 7"
    by (simp add: sanitize_actions [OF assms])
  show ?thesis
    using sanitize_actions [OF assms, of ?s] f l sanitize_actions_nonempty [OF assms, of a]
    by simp
qed

text \<open>
  C1. The advisory whose only action is "Add 2 spoons per litre of water" is flagged by the
  guardrails, because the line matches their pattern for "per" followed by a unit; the
  sanitiser does not know that pattern, and returns the line as the only action.
\<close>

theorem sanitize_keeps_per_litre_line:
  "guard_needs_human_review (guardrails per_litre_advisory empty_state)
   \<and> re_search pat_per ''Add 2 spoons per litre of water''
   \<and> actions_now (sanitize_advisory per_litre_advisory (guardrails per_litre_advisory empty_state))
       = [''Add 2 spoons per litre of water'']"
proof -
  have a: "guard_needs_human_review (guardrails per_litre_advisory empty_state)"
    by code_simp
  have b: "re_search pat_per ''Add 2 spoons per litre of water''"
    by code_simp
  have c: "actions_now (sanitize_advisory per_litre_advisory
             (guardrails per_litre_advisory empty_state))
       = [''Add 2 spoons per litre of water'']"
    by code_simp
  show ?thesis
    using a b c by simp
qed

lemma sanitize_removes_dosage_line:
  "guard_needs_human_review
     (guardrails (benign_advisory \<lparr> actions_now := [''Apply 2.5 ml per litre''] \<rparr>) empty_state)
   \<and> actions_now (sanitize_advisory
        (benign_advisory \<lparr> actions_now := [''Apply 2.5 ml per litre''] \<rparr>)
        (guardrails (benign_advisory \<lparr> actions_now := [''Apply 2.5 ml per litre''] \<rparr>) empty_state))
       = [fallback_action]"
  by code_simp

text \<open>
  C7, as stated, fails: sanitising the once-sanitised advisory appends the disclaimer and the
  reason a second time.
\<close>

theorem sanitize_not_idempotent:
  "sanitize_advisory (sanitize_advisory benign_advisory urgent_guard) urgent_guard
     \<noteq> sanitize_advisory benign_advisory urgent_guard"
  by (simp add: sanitize_advisory_def urgent_guard_def benign_advisory_def Let_def)

text \<open>
  C7, amended. Sanitising twice agrees with sanitising once on every field other than the
  safety notes; under a flagged result the second pass appends the disclaimer and up to two
  reasons again, up to the cap of six. The two advisories are equal exactly when the result
  is not flagged or the once-sanitised advisory already holds six safety notes.
\<close>

theorem sanitize_twice:
  "sanitize_advisory (sanitize_advisory a g) g
     = (sanitize_advisory a g)
         \<lparr> safety_notes :=
             (if guard_needs_human_review g
              then take 6 (safety_notes (sanitize_advisory a g)
                           @ [safety_disclaimer] @ take 2 (reasons g))
              else safety_notes (sanitize_advisory a g)) \<rparr>
   \<and> (sanitize_advisory (sanitize_advisory a g) g = sanitize_advisory a g
        \<longleftrightarrow> \<not> guard_needs_human_review g \<or> 6 \<le> length (safety_notes (sanitize_advisory a g)))"
proof (cases "guard_needs_human_review g")
  case False
  then show ?thesis
    by (simp add: sanitize_unflagged)
next
  case True
  let ?s = "sanitize_advisory a g"
  let ?n2 = "take 6 (safety_notes ?s @ [safety_disclaimer] @ take 2 (reasons g))"
  have acts: "actions_now (sanitize_advisory ?s g) = actions_now ?s"
    by (rule sanitize_actions_idem [OF True])
  have shape: "sanitize_advisory b g
      = b \<lparr> actions_now := actions_now (sanitize_advisory b g),
            safety_notes := take 6 (safety_notes b @ [safety_disclaimer] @ take 2 (reasons g)),
            needs_human_review := True, confidence := Conf_low \<rparr>" for b
    using True by (simp add: sanitize_advisory_def Let_def)
  have first: "sanitize_advisory ?s g = ?s \<lparr> safety_notes := ?n2 \<rparr>"
    apply (subst shape [of ?s])
    apply (simp only: acts)
    apply (subst (3 5) shape [of a])
    apply simp
    done
  have len1: "length (safety_notes ?s) \<le> 6"
    by (simp add: sanitize_notes [OF True])
  have eq_iff: "(?s \<lparr> safety_notes := ?n2 \<rparr> = ?s) = (?n2 = safety_notes ?s)"
    by (cases ?s) auto
  have notes_iff: "(?n2 = safety_notes ?s) = (6 \<le> length (safety_notes ?s))"
  proof
    assume "?n2 = safety_notes ?s"
    then have "length ?n2 = length (safety_notes ?s)"
      by simp
    then show "6 \<le> length (safety_notes ?s)"
      by (simp add: min_def split: if_splits)
  next
    assume "6 \<le> length (safety_notes ?s)"
    with len1 show "?n2 = safety_notes ?s"
      by simp
  qed
  show ?thesis
    using True first eq_iff notes_iff by simp
qed

theorem sanitize_twice_witness:
  "\<not> guard_needs_human_review passing_guard
   \<and> sanitize_advisory (sanitize_advisory benign_advisory passing_guard) passing_guard
       = sanitize_advisory benign_advisory passing_guard"
proof -
  have h: "\<not> guard_needs_human_review passing_guard"
    by (simp add: passing_guard_def)
  show ?thesis
    using sanitize_twice [of benign_advisory passing_guard] h by simp
qed

subsection \<open>Construction of an advisory\<close>

lemma many_notes_parse: "safe_parse_advisory many_notes_data = Inr many_notes_advisory"
  by code_simp

text \<open>
  C6, as stated, fails for the safety notes: no validator caps or cleans them, so an advisory
  is constructed with seven safety notes, one of them white space only.
\<close>

theorem safety_notes_not_capped:
  "safe_parse_advisory many_notes_data = Inr many_notes_advisory
   \<and> length (safety_notes many_notes_advisory) = 7
   \<and> '' '' \<in> set (safety_notes many_notes_advisory)"
proof -
  have "length (safety_notes many_notes_advisory) = 7
      \<and> '' '' \<in> set (safety_notes many_notes_advisory)"
    by (simp add: many_notes_advisory_def)
  then show ?thesis
    using many_notes_parse by simp
qed

text \<open>
  C6, amended. Every successfully constructed advisory has at most 7 actions, at most 5 watch
  items and at most 3 follow-up questions; every entry of these three lists is non-empty and
  stripped (so none is empty or white space only); the headline has 3 to 120 characters and the
  rationale at most 600. The safety notes are taken as given.
\<close>

theorem safe_parse_advisory_bounds:
  assumes "safe_parse_advisory d = Inr a"
  shows "length (actions_now a) \<le> 7 \<and> length (watch_out_for a) \<le> 5
     \<and> length (next_questions a) \<le> 3
     \<and> (\<forall>x \<in> set (actions_now a) \<union> set (watch_out_for a) \<union> set (next_questions a).
           x \<noteq> [] \<and> strip x = x)
     \<and> 3 \<le> length (headline a) \<and> length (headline a) \<le> 120
     \<and> length (rationale_brief a) \<le> 600
     \<and> safety_notes a = data_safety_notes d"
proof -
  from assms obtain h st r cf where
    h: "data_headline d = Some h" "3 \<le> length h" "length h \<le> 120"
    and r: "r = (case data_rationale_brief d of None \<Rightarrow> [] | Some t \<Rightarrow> t)" "length r \<le> 600"
    and a: "a = \<lparr> headline = h, adv_stage = st,
                  actions_now = limit_actions (data_actions_now d),
                  watch_out_for = limit_watch (data_watch_out_for d),
                  next_questions = limit_questions (data_next_questions d),
                  rationale_brief = r, confidence = cf,
                  safety_notes = data_safety_notes d,
                  needs_human_review =
                    (case data_needs_human_review d of None \<Rightarrow> False | Some b \<Rightarrow> b) \<rparr>"
    by (auto simp: safe_parse_advisory_def Let_def split: option.splits if_splits)
  have clean: "x \<noteq> [] \<and> strip x = x" if "x \<in> set (take n (strip_entries v))" for x n v
    using that strip_entries_clean [of x v] by (auto dest: in_set_takeD)
  show ?thesis
    using h r clean
    by (auto simp: a limit_actions_def limit_watch_def limit_questions_def)
qed

theorem safe_parse_advisory_bounds_witness:
  "safe_parse_advisory many_notes_data = Inr many_notes_advisory
   \<and> length (actions_now many_notes_advisory) \<le> 7
   \<and> strip ''Scout the field'' = ''Scout the field''
   \<and> 3 \<le> length (headline many_notes_advisory)
   \<and> safety_notes many_notes_advisory = data_safety_notes many_notes_data"
proof -
  note t = safe_parse_advisory_bounds [OF many_notes_parse]
  have m: "''Scout the field'' \<in> set (actions_now many_notes_advisory)
             \<union> set (watch_out_for many_notes_advisory) \<union> set (next_questions many_notes_advisory)"
    by (simp add: many_notes_advisory_def)
  have "strip ''Scout the field'' = ''Scout the field''"
    using t m by blast
  then show ?thesis
    using t many_notes_parse by simp
qed

subsection \<open>Weather node\<close>

text \<open>
  On the states the router sends to the node, those with both coordinates present and not
  zero, no geocoding is tried. A fetch that raises \<^verbatim>\<open>ToolError\<close> leaves the whole state as
  it was, the node name apart, and a fetch that returns replaces the snapshot.
\<close>

lemma geocoded_context_located:
  "lat c = Some la \<Longrightarrow> lon c = Some lo \<Longrightarrow> la \<noteq> 0 \<Longrightarrow> lo \<noteq> 0
   \<Longrightarrow> geocoded_context geocode c = Inr c"
  by (simp add: geocoded_context_def)

lemma weather_node_tool_error:
  assumes "lat (ctx st) = Some la" "lon (ctx st) = Some lo" "la \<noteq> 0" "lo \<noteq> 0"
    and "fetch la lo = ToolError"
  shows "weather_node geocode fetch st = Inr (st \<lparr> last_node := Some ''weather'' \<rparr>)"
  using assms by (simp add: weather_node_def geocoded_context_located)

lemma weather_node_success:
  assumes "lat (ctx st) = Some la" "lon (ctx st) = Some lo" "la \<noteq> 0" "lo \<noteq> 0"
    and "fetch la lo = Returned snap"
  shows "weather_node geocode fetch st
           = Inr (st \<lparr> weather := Some snap, last_node := Some ''weather'' \<rparr>)"
  using assms by (simp add: weather_node_def geocoded_context_located)

lemma weather_node_status_error_keeps_snapshot:
  "weather_node geocode_fails (fetch_weather_onecall http_status_error build) located_state
     = Inr (located_state \<lparr> last_node := Some ''weather'' \<rparr>)"
proof -
  have c: "lat (ctx located_state) = Some 19.07" "lon (ctx located_state) = Some 72.87"
    by (simp_all add: located_state_def empty_state_def empty_context_def)
  have nz: "(19.07::real) \<noteq> 0" "(72.87::real) \<noteq> 0"
    by simp_all
  have f: "fetch_weather_onecall http_status_error build 19.07 72.87 = ToolError"
    by (simp add: fetch_weather_onecall_def http_status_error_def)
  show ?thesis
    using weather_node_tool_error
      [where st = located_state and la = "19.07" and lo = "72.87"
         and fetch = "fetch_weather_onecall http_status_error build" and geocode = geocode_fails]
      c nz f
    by blast
qed

text \<open>
  C8. The state has coordinates 19.07 and 72.87 and an earlier snapshot, and every attempt of
  the weather request times out. \<^verbatim>\<open>_http_get_json\<close> then raises \<^verbatim>\<open>RetryError\<close>, which
  \<^verbatim>\<open>fetch_weather_onecall\<close> does not turn into \<^verbatim>\<open>ToolError\<close> and \<^verbatim>\<open>weather_node\<close> does not
  catch: the node returns no state, and the exception ends the turn.
\<close>

theorem weather_node_timeout_raises:
  "lat (ctx located_state) = Some 19.07 \<and> lon (ctx located_state) = Some 72.87
   \<and> weather located_state = Some old_snapshot
   \<and> fetch_weather_onecall http_times_out Map.empty 19.07 72.87 = Raised RetryError
   \<and> weather_node geocode_fails (fetch_weather_onecall http_times_out Map.empty) located_state
       = Inl RetryError"
proof -
  have c: "lat (ctx located_state) = Some 19.07" "lon (ctx located_state) = Some 72.87"
    by (simp_all add: located_state_def empty_state_def empty_context_def)
  have w: "weather located_state = Some old_snapshot"
    by (simp add: located_state_def empty_state_def)
  have nz: "(19.07::real) \<noteq> 0" "(72.87::real) \<noteq> 0"
    by simp_all
  have f: "fetch_weather_onecall http_times_out Map.empty 19.07 72.87 = Raised RetryError"
    by (simp add: fetch_weather_onecall_def http_times_out_def)
  have g: "geocoded_context geocode_fails (ctx located_state) = Inr (ctx located_state)"
    using geocoded_context_located
      [where c = "ctx located_state" and la = "19.07" and lo = "72.87" and geocode = geocode_fails]
      c nz
    by blast
  have n: "weather_node geocode_fails (fetch_weather_onecall http_times_out Map.empty)
             located_state = Inl RetryError"
    using c nz f by (simp add: weather_node_def g)
  show ?thesis
    using c w f n by blast
qed

subsection \<open>Message history\<close>

lemma compact_messages_bound: "0 < n \<Longrightarrow> length (compact_messages n ms) \<le> n"
  by (simp add: compact_messages_def)

text \<open>The paths that do compact: the start of the turn, the ask node, a successful advice.\<close>

lemma begin_turn_bound: "length (messages (begin_turn st user_text)) \<le> 16"
  by (simp add: begin_turn_def compact_messages_bound)

lemma ask_node_bound: "length (messages (ask_node st)) \<le> 16"
  by (simp add: ask_node_def Let_def compact_messages_bound)

lemma advice_node_success_bound:
  "safe_parse_advisory d = Inr adv \<Longrightarrow> length (messages (advice_node (Some d) st)) \<le> 16"
  by (simp add: advice_node_def Let_def compact_messages_bound)

text \<open>
  C9. Entering the advice node with a history of 16 messages, a failed synthesis appends the
  fallback message without compacting: the returned history has 17 messages.
\<close>

theorem advice_fallback_exceeds_cap:
  "length (messages full_history_state) = 16
   \<and> length (messages (advice_node None full_history_state)) = 17"
  by (simp add: advice_node_def full_history_state_def empty_state_def add_assistant_def)

subsection \<open>Router\<close>

text \<open>
  With both coordinates present and non-zero, a crop, a known stage and a stale weather
  snapshot, the router chooses the weather node.
\<close>

lemma route_weather:
  assumes "lat (ctx st) = Some la" "lon (ctx st) = Some lo" "la \<noteq> 0" "lo \<noteq> 0"
    and "nonblank (crop (ctx st))" "stage (ctx st) \<noteq> Unknown"
    and "is_weather_stale parse now st 6 = Inr True"
  shows "route parse now st = Inr Weather"
  using assms by (simp add: route_def Let_def)

text \<open>
  C2. With latitude 0, longitude 72.87, crop wheat, stage vegetative, no location text and no
  weather snapshot (which is stale), the router answers ASK: the test \<^verbatim>\<open>c.lat and c.lon\<close>
  takes the latitude 0 for a missing one.
\<close>

lemma wheat_nonblank: "nonblank (Some ''wheat'')"
  by code_simp

theorem route_zero_latitude_asks:
  "lat (ctx zero_latitude_state) = Some 0
   \<and> lat_ok (lat (ctx zero_latitude_state)) \<and> lon_ok (lon (ctx zero_latitude_state))
   \<and> nonblank (crop (ctx zero_latitude_state)) \<and> stage (ctx zero_latitude_state) \<noteq> Unknown
   \<and> is_weather_stale Map.empty 0 zero_latitude_state 6 = Inr True
   \<and> route Map.empty 0 zero_latitude_state = Inr Ask"
proof -
  have gates: "nonblank (crop (ctx zero_latitude_state))"
    using wheat_nonblank by (simp add: zero_latitude_state_def empty_state_def empty_context_def)
  have rest: "lat (ctx zero_latitude_state) = Some 0
   \<and> lat_ok (lat (ctx zero_latitude_state)) \<and> lon_ok (lon (ctx zero_latitude_state))
   \<and> stage (ctx zero_latitude_state) \<noteq> Unknown
   \<and> is_weather_stale Map.empty 0 zero_latitude_state 6 = Inr True
   \<and> route Map.empty 0 zero_latitude_state = Inr Ask"
    by (simp add: route_def is_weather_stale_def lat_ok_def lon_ok_def zero_latitude_state_def
          empty_state_def empty_context_def Let_def)
  show ?thesis
    using gates rest by blast
qed

text \<open>
  The same state with a location text passes the location gate, but the weather rule is
  skipped for the same reason, and the router goes on to the advice.
\<close>

lemma route_zero_latitude_skips_weather:
  "route Map.empty 0
     (zero_latitude_state \<lparr> ctx := ctx zero_latitude_state \<lparr> location_text := Some ''Accra'' \<rparr> \<rparr>)
   = Inr Advice"
proof -
  have "nonblank (Some ''Accra'')"
    by code_simp
  then show ?thesis
    using wheat_nonblank
    by (simp add: route_def zero_latitude_state_def empty_state_def empty_context_def
          calm_observation_def Let_def del: nonblank.simps)
qed

end
